theory Spec2Isabelle
  imports Main "HOL-Library.Word"
begin

unbundle bit_operations_syntax

section \<open>Values, exceptions and the environment\<close>

text \<open>
  A shallow embedding of \<^verbatim>\<open>aiopocket/client.py\<close>. Python strings are modelled by their
  UTF-8 byte sequences (\<^typ>\<open>string\<close> is a list of 8-bit characters): concatenation,
  equality and \<^verbatim>\<open>.encode()\<close> agree with Python's on that representation.
\<close>

datatype json =
    JNull
  | JBool bool
  | JInt int
  | JStr string
  | JArr "json list"
  | JObj "(string \<times> json) list"

text \<open>
  The exceptions that can travel through the client. \<open>ConnectionError\<close> and
  \<open>TimeoutError\<close> are the transport failures of \<^verbatim>\<open>requests\<close> and \<^verbatim>\<open>aiohttp\<close>;
  \<open>JSONDecodeError\<close> is what \<^verbatim>\<open>.json()\<close> raises on a body that is not JSON;
  \<open>RetryError e\<close> is \<^verbatim>\<open>tenacity.RetryError\<close> wrapping the last attempt, which raised \<open>e\<close>.
\<close>

datatype exn =
    RuntimeError
  | OSError
  | KeyError string
  | TypeError
  | AttributeError
  | ConnectionError string
  | TimeoutError
  | JSONDecodeError
  | RetryError exn

fun is_transport :: "exn \<Rightarrow> bool" where
  "is_transport (ConnectionError d) = True"
| "is_transport TimeoutError = True"
| "is_transport e = False"

text \<open>
  Everything the client reads from outside. The \<open>n\<close>-th reading of the clock, the
  \<open>n\<close>-th blocking POST of \<^verbatim>\<open>requests\<close> and the \<open>n\<close>-th POST through the aiohttp
  session each have a scripted outcome; a run is deterministic, so quantifying over the
  scripts covers every server, whatever it makes of the request it is sent.
\<close>

record env =
  running_loop :: "nat option"
  uuid1 :: string
  config_file :: "exn + (string \<times> json) list"
  clock_ms :: "nat \<Rightarrow> int"
  requests_post :: "nat \<Rightarrow> exn + json"
  session_post :: "nat \<Rightarrow> exn + json"

datatype event =
    NewConnector
  | NewSession
  | CloseConnector
  | Acquire
  | Release
  | RPost
  | APost
  | SleepMs nat

datatype conn_state = Open | Closed

text \<open>
  Modelled from the spec: \<^verbatim>\<open>LoginUserInfo\<close> of \<^verbatim>\<open>typedefs.py\<close>, which is not among
  the sources. The spec has it hold a token, initially absent, and the user metadata
  returned by login; the client builds the initial one from the empty mapping and tests
  \<^verbatim>\<open>.token is None\<close> on it. The token is read as \<^verbatim>\<open>.get('token')\<close> would.
\<close>

record login_user_info =
  token :: "json option"
  info :: "(string \<times> json) list"

definition LoginUserInfo :: "json \<Rightarrow> exn + login_user_info" where
  "LoginUserInfo j =
     (case j of
        JObj d \<Rightarrow>
          Inr \<lparr>token = (case map_of d ''token'' of Some JNull \<Rightarrow> None | r \<Rightarrow> r), info = d\<rparr>
      | _ \<Rightarrow> Inl AttributeError)"

text \<open>
  The client object, with the fields of \<^verbatim>\<open>__init__\<close> (\<open>priv_x\<close> is \<^verbatim>\<open>self.__x\<close>),
  followed by the bookkeeping of the outside world: how many times the clock and the two
  networks have been used, and the trace of effects so far (most recent last).
\<close>

record client =
  priv_config :: "(string \<times> json) list option"
  priv_uuid :: string
  priv_login_user :: login_user_info
  priv_connector :: "conn_state option"
  priv_session :: "unit option"
  priv_sem :: nat
  priv_loop :: nat
  time_calls :: nat
  rpost_calls :: nat
  apost_calls :: nat
  trace :: "event list"

type_synonym 'a act = "client \<Rightarrow> (exn + 'a) \<times> client"

definition then_do :: "'a act \<Rightarrow> ('a \<Rightarrow> 'b act) \<Rightarrow> 'b act" where
  "then_do m f s = (case m s of (Inl e, s') \<Rightarrow> (Inl e, s') | (Inr v, s') \<Rightarrow> f v s')"

definition lift :: "exn + 'a \<Rightarrow> 'a act" where
  "lift r s = (r, s)"

definition emit :: "event \<Rightarrow> client \<Rightarrow> client" where
  "emit ev s = s\<lparr>trace := trace s @ [ev]\<rparr>"

section \<open>Construction\<close>

text \<open>
  \<^verbatim>\<open>__init__\<close>: the identifier is \<^verbatim>\<open>str(uuid1()).replace('-', '')\<close>; the last statement,
  \<^verbatim>\<open>asyncio.get_running_loop()\<close>, raises RuntimeError when no loop is running.
\<close>

definition init :: "env \<Rightarrow> exn + client" where
  "init e =
     (case running_loop e of
        None \<Rightarrow> Inl RuntimeError
      | Some l \<Rightarrow>
          Inr \<lparr>priv_config = None,
               priv_uuid = filter (\<lambda>c. c \<noteq> CHR ''-'') (uuid1 e),
               priv_login_user = \<lparr>token = None, info = []\<rparr>,
               priv_connector = None,
               priv_session = None,
               priv_sem = 10,
               priv_loop = l,
               time_calls = 0, rpost_calls = 0, apost_calls = 0, trace = []\<rparr>)"

section \<open>Configuration and the request signature\<close>

text \<open>The \<^verbatim>\<open>config\<close> property: \<^verbatim>\<open>config.toml\<close> is loaded on first use and kept.\<close>

definition config :: "env \<Rightarrow> (string \<times> json) list act" where
  "config e s =
     (case priv_config s of
        Some c \<Rightarrow> (Inr c, s)
      | None \<Rightarrow>
          (case config_file e of
             Inl x \<Rightarrow> (Inl x, s)
           | Inr c \<Rightarrow> (Inr c, s\<lparr>priv_config := Some c\<rparr>)))"

text \<open>Subscripting \<^verbatim>\<open>v[k]\<close> with a string key: KeyError on a mapping without the key,
  TypeError on anything that is not a mapping.\<close>

definition getitem :: "json \<Rightarrow> string \<Rightarrow> exn + json" where
  "getitem v k =
     (case v of
        JObj d \<Rightarrow> (case map_of d k of None \<Rightarrow> Inl (KeyError k) | Some x \<Rightarrow> Inr x)
      | _ \<Rightarrow> Inl TypeError)"

text \<open>\<^verbatim>\<open>self.config[g][k]\<close>.\<close>

definition config_get :: "env \<Rightarrow> string \<Rightarrow> string \<Rightarrow> json act" where
  "config_get e g k =
     then_do (config e) (\<lambda>c.
     then_do (lift (getitem (JObj c) g)) (\<lambda>grp.
     lift (getitem grp k)))"

text \<open>Concatenating onto a \<^verbatim>\<open>str\<close>: TypeError unless the operand is a string too.\<close>

definition as_str :: "json \<Rightarrow> exn + string" where
  "as_str v = (case v of JStr x \<Rightarrow> Inr x | _ \<Rightarrow> Inl TypeError)"

text \<open>\<^verbatim>\<open>str(n)\<close> for an integer: decimal digits, with a minus sign when negative.\<close>

fun digits :: "nat \<Rightarrow> string" where
  "digits n =
     (if n < 10 then [''0123456789'' ! n]
      else digits (n div 10) @ [''0123456789'' ! (n mod 10)])"

declare digits.simps [simp del]

definition str_int :: "int \<Rightarrow> string" where
  "str_int i = (if i < 0 then CHR ''-'' # digits (nat (- i)) else digits (nat i))"

text \<open>\<^verbatim>\<open>int(time() * 1000)\<close>: one reading of the clock, in milliseconds.\<close>

definition now_ms :: "env \<Rightarrow> int act" where
  "now_ms e s = (Inr (clock_ms e (time_calls s)), s\<lparr>time_calls := Suc (time_calls s)\<rparr>)"

subsection \<open>MD5 (\<^verbatim>\<open>hashlib.md5(...).hexdigest()\<close>), after RFC 1321\<close>

type_synonym u32 = "32 word"

definition md5_K :: "u32 list" where
  "md5_K =
    [0xd76aa478, 0xe8c7b756, 0x242070db, 0xc1bdceee, 0xf57c0faf, 0x4787c62a, 0xa8304613, 0xfd469501,
     0x698098d8, 0x8b44f7af, 0xffff5bb1, 0x895cd7be, 0x6b901122, 0xfd987193, 0xa679438e, 0x49b40821,
     0xf61e2562, 0xc040b340, 0x265e5a51, 0xe9b6c7aa, 0xd62f105d, 0x02441453, 0xd8a1e681, 0xe7d3fbc8,
     0x21e1cde6, 0xc33707d6, 0xf4d50d87, 0x455a14ed, 0xa9e3e905, 0xfcefa3f8, 0x676f02d9, 0x8d2a4c8a,
     0xfffa3942, 0x8771f681, 0x6d9d6122, 0xfde5380c, 0xa4beea44, 0x4bdecfa9, 0xf6bb4b60, 0xbebfbc70,
     0x289b7ec6, 0xeaa127fa, 0xd4ef3085, 0x04881d05, 0xd9d4d039, 0xe6db99e5, 0x1fa27cf8, 0xc4ac5665,
     0xf4292244, 0x432aff97, 0xab9423a7, 0xfc93a039, 0x655b59c3, 0x8f0ccc92, 0xffeff47d, 0x85845dd1,
     0x6fa87e4f, 0xfe2ce6e0, 0xa3014314, 0x4e0811a1, 0xf7537e82, 0xbd3af235, 0x2ad7d2bb, 0xeb86d391]"

definition md5_S :: "nat list" where
  "md5_S =
    [7, 12, 17, 22, 7, 12, 17, 22, 7, 12, 17, 22, 7, 12, 17, 22,
     5, 9, 14, 20, 5, 9, 14, 20, 5, 9, 14, 20, 5, 9, 14, 20,
     4, 11, 16, 23, 4, 11, 16, 23, 4, 11, 16, 23, 4, 11, 16, 23,
     6, 10, 15, 21, 6, 10, 15, 21, 6, 10, 15, 21, 6, 10, 15, 21]"

definition rotl32 :: "u32 \<Rightarrow> nat \<Rightarrow> u32" where
  "rotl32 x n = push_bit n x OR drop_bit (32 - n) x"

text \<open>Padding: a 1 bit, zeros up to 56 modulo 64 bytes, the bit length in 8 bytes,
  least significant first.\<close>

definition md5_pad :: "nat list \<Rightarrow> nat list" where
  "md5_pad m =
     (let l = length m in
      m @ [128] @ replicate ((119 - l mod 64) mod 64) 0 @
      map (\<lambda>i. (8 * l) div 256 ^ i mod 256) [0, 1, 2, 3, 4, 5, 6, 7])"

fun le_words :: "nat list \<Rightarrow> u32 list" where
  "le_words (a # b # c # d # bs) =
     of_nat (a + 256 * b + 65536 * c + 16777216 * d) # le_words bs"
| "le_words bs = []"

definition md5_step ::
  "u32 list \<Rightarrow> nat \<Rightarrow> u32 \<times> u32 \<times> u32 \<times> u32 \<Rightarrow> u32 \<times> u32 \<times> u32 \<times> u32" where
  "md5_step M i = (\<lambda>(A, B, C, D).
     let (F, g) =
        (if i < 16 then ((B AND C) OR (NOT B AND D), i)
         else if i < 32 then ((D AND B) OR (NOT D AND C), (5 * i + 1) mod 16)
         else if i < 48 then (B XOR C XOR D, (3 * i + 5) mod 16)
         else (C XOR (B OR NOT D), (7 * i) mod 16));
       F' = F + A + md5_K ! i + M ! g
     in (D, B + rotl32 F' (md5_S ! i), B, C))"

definition md5_block ::
  "u32 \<times> u32 \<times> u32 \<times> u32 \<Rightarrow> u32 list \<Rightarrow> u32 \<times> u32 \<times> u32 \<times> u32" where
  "md5_block h M =
     (case h of (a0, b0, c0, d0) \<Rightarrow>
        (case fold (md5_step M) [0..<64] h of
           (A, B, C, D) \<Rightarrow> (a0 + A, b0 + B, c0 + C, d0 + D)))"

fun md5_blocks :: "u32 \<times> u32 \<times> u32 \<times> u32 \<Rightarrow> u32 list \<Rightarrow> u32 \<times> u32 \<times> u32 \<times> u32" where
  "md5_blocks h ws =
     (if length ws < 16 then h else md5_blocks (md5_block h (take 16 ws)) (drop 16 ws))"

declare md5_blocks.simps [simp del]

definition hex_byte :: "nat \<Rightarrow> string" where
  "hex_byte b = [''0123456789abcdef'' ! (b div 16), ''0123456789abcdef'' ! (b mod 16)]"

definition hex_le :: "u32 \<Rightarrow> string" where
  "hex_le w = concat (map (\<lambda>i. hex_byte (unat (drop_bit (8 * i) w) mod 256)) [0, 1, 2, 3])"

definition md5_hexdigest :: "string \<Rightarrow> string" where
  "md5_hexdigest m =
     (case md5_blocks (0x67452301, 0xefcdab89, 0x98badcfe, 0x10325476)
             (le_words (md5_pad (map of_char m))) of
        (a, b, c, d) \<Rightarrow> hex_le a @ hex_le b @ hex_le c @ hex_le d)"

subsection \<open>Base64 (\<^verbatim>\<open>base64.b64encode\<close>), standard alphabet with padding\<close>

definition b64_alphabet :: string where
  "b64_alphabet = ''ABCDEFGHIJKLMNOPQRSTUVWXYZabcdefghijklmnopqrstuvwxyz0123456789+/''"

fun b64_bytes :: "nat list \<Rightarrow> string" where
  "b64_bytes (a # b # c # bs) =
     [b64_alphabet ! (a div 4),
      b64_alphabet ! (a mod 4 * 16 + b div 16),
      b64_alphabet ! (b mod 16 * 4 + c div 64),
      b64_alphabet ! (c mod 64)] @ b64_bytes bs"
| "b64_bytes [a, b] =
     [b64_alphabet ! (a div 4),
      b64_alphabet ! (a mod 4 * 16 + b div 16),
      b64_alphabet ! (b mod 16 * 4),
      CHR ''='']"
| "b64_bytes [a] =
     [b64_alphabet ! (a div 4), b64_alphabet ! (a mod 4 * 16), CHR ''='', CHR ''='']"
| "b64_bytes [] = []"

definition b64encode :: "string \<Rightarrow> string" where
  "b64encode m = b64_bytes (map of_char m)"

subsection \<open>The \<^verbatim>\<open>pa\<close> property\<close>

definition pa :: "env \<Rightarrow> string act" where
  "pa e =
     then_do (config_get e ''paInfo'' ''PostKey'') (\<lambda>PostKey.
     then_do (config_get e ''paInfo'' ''PostKeyVersion'') (\<lambda>PostKeyVersion.
     (\<lambda>s.
       (let UUID = priv_uuid s in
        then_do (now_ms e) (\<lambda>t.
        (let NOW_TIME = str_int t in
         then_do (lift (as_str PostKey)) (\<lambda>k.
         (let MD5 = md5_hexdigest (NOW_TIME @ UUID @ k) in
          then_do (lift (as_str PostKeyVersion)) (\<lambda>v.
          lift (Inr (b64encode (NOW_TIME @ '','' @ UUID @ '','' @ MD5 @ '','' @ v))))))))) s)))"

text \<open>The signature as the specification words it.\<close>

definition computeSignature_spec :: "int \<Rightarrow> string \<Rightarrow> string \<Rightarrow> string \<Rightarrow> string" where
  "computeSignature_spec timestamp sessionIdentity PostKey postKeyVersion =
     b64encode (str_int timestamp @ '','' @ sessionIdentity @ '','' @
                md5_hexdigest (str_int timestamp @ sessionIdentity @ PostKey) @ '','' @
                postKeyVersion)"

section \<open>Retrying\<close>

text \<open>
  Both decorators run the function, return its result when it raises nothing, stop when
  the number of attempts made has reached the limit, and otherwise sleep the fixed wait
  and run it again with the same arguments; both retry on any exception.
  \<^verbatim>\<open>retrying.retry(stop_max_attempt_number=n, wait_fixed=w)\<close> takes \<open>w\<close> in milliseconds
  and re-raises the last exception as it is; \<^verbatim>\<open>tenacity.retry(stop=stop_after_attempt(n),
  wait=wait_fixed(w))\<close> takes \<open>w\<close> in seconds and raises RetryError around the last attempt.
  Here \<open>n\<close> counts the attempts still allowed, this one included.
\<close>

fun retry_call :: "nat \<Rightarrow> nat \<Rightarrow> (exn \<Rightarrow> exn) \<Rightarrow> 'a act \<Rightarrow> 'a act" where
  "retry_call n wait_ms wrap f s =
     (case f s of
        (Inr v, s') \<Rightarrow> (Inr v, s')
      | (Inl x, s') \<Rightarrow>
          if n \<le> 1 then (Inl (wrap x), s')
          else retry_call (n - 1) wait_ms wrap f (emit (SleepMs wait_ms) s'))"

declare retry_call.simps [simp del]

text \<open>The client at the start of attempt \<open>k\<close> (counted from 0) of a retried call,
  when the attempts before it have all raised: after each of them, the fixed wait.\<close>

fun attempt_start :: "nat \<Rightarrow> 'a act \<Rightarrow> nat \<Rightarrow> client \<Rightarrow> client" where
  "attempt_start w f 0 s = s"
| "attempt_start w f (Suc k) s = attempt_start w f k (emit (SleepMs w) (snd (f s)))"

section \<open>Login\<close>

text \<open>The body of \<^verbatim>\<open>__rpost\<close>: one blocking \<^verbatim>\<open>requests.post(...).json()\<close>.\<close>

definition rpost_once :: "env \<Rightarrow> json act" where
  "rpost_once e s =
     (requests_post e (rpost_calls s), emit RPost (s\<lparr>rpost_calls := Suc (rpost_calls s)\<rparr>))"

text \<open>\<^verbatim>\<open>__rpost\<close> under \<^verbatim>\<open>@retry(stop_max_attempt_number=3, wait_fixed=3)\<close>.\<close>

definition rpost :: "env \<Rightarrow> json act" where
  "rpost e = retry_call 3 3 (\<lambda>x. x) (rpost_once e)"

definition set_login_user :: "login_user_info \<Rightarrow> unit act" where
  "set_login_user u s = (Inr (), s\<lparr>priv_login_user := u\<rparr>)"

definition user_login :: "env \<Rightarrow> unit act" where
  "user_login e =
     then_do (pa e) (\<lambda>sig.
     then_do (config_get e ''Headers'' ''appInfo'') (\<lambda>appInfo.
     then_do (config_get e ''userInfo'' ''username'') (\<lambda>mobile.
     then_do (config_get e ''userInfo'' ''password'') (\<lambda>pwd.
     then_do (rpost e) (\<lambda>res_json.
     then_do (lift (getitem res_json ''content'')) (\<lambda>content.
     then_do (lift (getitem content ''userInfo'')) (\<lambda>userInfo.
     then_do (lift (LoginUserInfo userInfo)) set_login_user)))))))"

section \<open>Headers\<close>

text \<open>A header value: a value taken from the configuration or computed, the
  \<^verbatim>\<open>json.dumps\<close> text of a value, or Python's \<^verbatim>\<open>None\<close>.\<close>

datatype hval = Plain json | Dumped json | NoneVal

definition token_hval :: "login_user_info \<Rightarrow> hval" where
  "token_hval u = (case token u of None \<Rightarrow> NoneVal | Some t \<Rightarrow> Plain t)"

definition login_if_no_token :: "env \<Rightarrow> unit act" where
  "login_if_no_token e s =
     (if token (priv_login_user s) = None then user_login e s else (Inr (), s))"

definition finish_headers :: "(string \<times> hval) list \<Rightarrow> string \<Rightarrow> (string \<times> hval) list act" where
  "finish_headers base_headers sig s =
     (Inr (base_headers @
           [(''pa'', Plain (JStr sig)), (''token'', token_hval (priv_login_user s))]), s)"

definition headers :: "env \<Rightarrow> (string \<times> hval) list act" where
  "headers e =
     then_do (config_get e ''Headers'' ''user_agent'') (\<lambda>user_agent.
     then_do (config_get e ''Headers'' ''content_type'') (\<lambda>content_type.
     then_do (config_get e ''Headers'' ''host'') (\<lambda>host.
     then_do (config_get e ''Headers'' ''content_type'') (\<lambda>accept_encoding.
     then_do (config_get e ''Headers'' ''appInfo'') (\<lambda>appInfo.
     then_do (login_if_no_token e) (\<lambda>u.
     then_do (pa e) (\<lambda>sig.
       finish_headers
         [(''User-Agent'', Plain user_agent),
          (''Content-Type'', Plain content_type),
          (''Host'', Plain host),
          (''Connection'', Plain (JStr ''close'')),
          (''Accept-Encoding'', Plain accept_encoding),
          (''appInfo'', Dumped appInfo)] sig)))))))"

section \<open>Connection pool and session\<close>

text \<open>The \<^verbatim>\<open>connector\<close> property: builds the TCPConnector when the field is None. What
  it returns is never None.\<close>

definition connector :: "conn_state act" where
  "connector s =
     (case priv_connector s of
        None \<Rightarrow> (Inr Open, emit NewConnector (s\<lparr>priv_connector := Some Open\<rparr>))
      | Some c \<Rightarrow> (Inr c, s))"

text \<open>The \<^verbatim>\<open>session\<close> property: builds the ClientSession, on the connector property's
  value, when the field is None.\<close>

definition new_session :: "conn_state \<Rightarrow> unit act" where
  "new_session c s = (Inr (), emit NewSession (s\<lparr>priv_session := Some ()\<rparr>))"

definition session :: "unit act" where
  "session s =
     (case priv_session s of
        None \<Rightarrow> then_do connector new_session s
      | Some u \<Rightarrow> (Inr u, s))"

definition close_connector :: "unit act" where
  "close_connector s = (Inr (), emit CloseConnector (s\<lparr>priv_connector := Some Closed\<rparr>))"

text \<open>\<^verbatim>\<open>__aexit__\<close>: \<^verbatim>\<open>if self.connector is not None: await self.connector.close()\<close>. Both
  mentions of \<^verbatim>\<open>self.connector\<close> go through the property, whose value is not None.\<close>

definition aexit :: "unit act" where
  "aexit = then_do connector (\<lambda>c. then_do connector (\<lambda>c'. close_connector))"

section \<open>The dispatcher\<close>

text \<open>The two literals of the source, \<^verbatim>\<open>'token\<close>+U+89E3 U+5BC6 U+5931 U+8D25\<^verbatim>\<open>'\<close> and
  U+975E U+6CD5 U+6388 U+6743, in UTF-8.\<close>

definition msg_token_decrypt_failed :: string where
  "msg_token_decrypt_failed =
     ''token'' @ [CHR 0xE8, CHR 0xA7, CHR 0xA3, CHR 0xE5, CHR 0xAF, CHR 0x86,
                  CHR 0xE5, CHR 0xA4, CHR 0xB1, CHR 0xE8, CHR 0xB4, CHR 0xA5]"

definition msg_illegal_authorization :: string where
  "msg_illegal_authorization =
     [CHR 0xE9, CHR 0x9D, CHR 0x9E, CHR 0xE6, CHR 0xB3, CHR 0x95,
      CHR 0xE6, CHR 0x8E, CHR 0x88, CHR 0xE6, CHR 0x9D, CHR 0x83]"

text \<open>\<^verbatim>\<open>v.get(k)\<close>: AttributeError on anything that is not a mapping.\<close>

definition dict_get :: "json \<Rightarrow> string \<Rightarrow> exn + json option" where
  "dict_get v k = (case v of JObj d \<Rightarrow> Inr (map_of d k) | _ \<Rightarrow> Inl AttributeError)"

definition is_invalidation :: "json option \<Rightarrow> bool" where
  "is_invalidation m =
     (m = Some (JStr msg_token_decrypt_failed) \<or> m = Some (JStr msg_illegal_authorization))"

text \<open>The two \<^verbatim>\<open>async with\<close> blocks: the semaphore is held around the session's POST and
  the decoding of its body, and released on the way out, also by an exception.\<close>

definition gated_post :: "env \<Rightarrow> json act" where
  "gated_post e s =
     (case session (emit Acquire s) of
        (Inl x, s') \<Rightarrow> (Inl x, emit Release s')
      | (Inr u, s') \<Rightarrow>
          (session_post e (apost_calls s'),
           emit Release (emit APost (s'\<lparr>apost_calls := Suc (apost_calls s')\<rparr>))))"

text \<open>The body of \<^verbatim>\<open>__apost\<close>. Its result is \<open>None\<close> for Python's \<^verbatim>\<open>None\<close>, which the
  function returns by falling off its end after \<^verbatim>\<open>self.user_login()\<close>.\<close>

definition after_response :: "env \<Rightarrow> json \<Rightarrow> json option act" where
  "after_response e res_json =
     then_do (lift (dict_get res_json ''message'')) (\<lambda>m.
       if is_invalidation m then then_do (user_login e) (\<lambda>u. lift (Inr None))
       else lift (Inr (Some res_json)))"

text \<open>\<^verbatim>\<open>if _headers is None: _headers = self.headers\<close>.\<close>

definition request_headers :: "env \<Rightarrow> (string \<times> hval) list option \<Rightarrow> (string \<times> hval) list act" where
  "request_headers e hdrs = (case hdrs of None \<Rightarrow> headers e | Some h \<Rightarrow> lift (Inr h))"

definition apost_once :: "env \<Rightarrow> (string \<times> hval) list option \<Rightarrow> json option act" where
  "apost_once e hdrs =
     then_do (request_headers e hdrs) (\<lambda>h.
     then_do (gated_post e) (after_response e))"

text \<open>\<^verbatim>\<open>__apost\<close> under \<^verbatim>\<open>@aretry(stop=stop_after_attempt(5), wait=wait_fixed(3))\<close>.\<close>

definition apost :: "env \<Rightarrow> (string \<times> hval) list option \<Rightarrow> json option act" where
  "apost e hdrs = retry_call 5 3000 RetryError (apost_once e hdrs)"

section \<open>Endpoint methods\<close>

text \<open>
  Modelled from the spec: \<^verbatim>\<open>StarBasicInfo\<close>, \<^verbatim>\<open>UserBasicInfo\<close> and \<^verbatim>\<open>BaseRoomInfo\<close> of
  \<^verbatim>\<open>typedefs.py\<close>, which is not among the sources: each projects the JSON mapping it
  is given into a named record.
\<close>

datatype typed_record = StarBasicInfo json | UserBasicInfo json | BaseRoomInfo json

text \<open>\<^verbatim>\<open>res_json['content']\<close> on what \<^verbatim>\<open>__apost\<close> returned: TypeError on \<^verbatim>\<open>None\<close>.\<close>

definition content_of :: "json option \<Rightarrow> exn + json" where
  "content_of r = (case r of None \<Rightarrow> Inl TypeError | Some j \<Rightarrow> getitem j ''content'')"

definition project :: "(json \<Rightarrow> typed_record) \<Rightarrow> json option \<Rightarrow> typed_record act" where
  "project mk res_json = then_do (lift (content_of res_json)) (\<lambda>c. lift (Inr (mk c)))"

definition get_starBasicInfo :: "env \<Rightarrow> int \<Rightarrow> typed_record act" where
  "get_starBasicInfo e uid = then_do (apost e None) (project StarBasicInfo)"

definition get_userInfo :: "env \<Rightarrow> int \<Rightarrow> typed_record act" where
  "get_userInfo e uid = then_do (apost e None) (project UserBasicInfo)"

definition get_roomInfo :: "env \<Rightarrow> int \<Rightarrow> typed_record act" where
  "get_roomInfo e uid = then_do (apost e None) (project BaseRoomInfo)"

section \<open>Interleaved dispatch through the admission gate\<close>






section \<open>A concrete client\<close>

definition example_config :: "(string \<times> json) list" where
  "example_config =
     [(''paInfo'', JObj [(''PostKey'', JStr ''K7VKiPiVeXdeK7VK''), (''PostKeyVersion'', JStr ''V1'')]),
      (''userInfo'', JObj [(''username'', JStr ''13800000000''), (''password'', JStr ''secret'')]),
      (''Headers'', JObj [(''user_agent'', JStr ''PocketFans201807/6.0.16''),
                          (''content_type'', JStr ''application/json;charset=utf-8''),
                          (''host'', JStr ''pocketapi.48.cn''),
                          (''appInfo'', JObj [(''vendor'', JStr ''apple'')])])]"

definition example_env :: "(nat \<Rightarrow> exn + json) \<Rightarrow> (nat \<Rightarrow> exn + json) \<Rightarrow> env" where
  "example_env rp sp =
     \<lparr>running_loop = Some 0,
      uuid1 = ''01234567-89ab-cdef-0123-456789abcdef'',
      config_file = Inr example_config,
      clock_ms = (\<lambda>n. 1700000000000 + int n),
      requests_post = rp,
      session_post = sp\<rparr>"

definition example_client :: client where
  "example_client =
     \<lparr>priv_config = None,
      priv_uuid = ''0123456789abcdef0123456789abcdef'',
      priv_login_user = \<lparr>token = None, info = []\<rparr>,
      priv_connector = None,
      priv_session = None,
      priv_sem = 10,
      priv_loop = 0,
      time_calls = 0, rpost_calls = 0, apost_calls = 0, trace = []\<rparr>"

definition login_ok :: json where
  "login_ok =
     JObj [(''status'', JInt 200),
           (''content'', JObj [(''userInfo'', JObj [(''token'', JStr ''t0k3n''),
                                                   (''nickname'', JStr ''fan'')])])]"

definition payload_ok :: json where
  "payload_ok =
     JObj [(''status'', JInt 200), (''message'', JStr ''OK''),
           (''content'', JObj [(''userId'', JInt 1)])]"

text \<open>Scripts for the session's POSTs: two refusals and then a payload; five failures;
  a body that is not JSON and then a payload; an invalidation message and then a payload;
  a mapping without \<^verbatim>\<open>content\<close>.\<close>

definition sp_fail2 :: "nat \<Rightarrow> exn + json" where
  "sp_fail2 = (\<lambda>n. if n < 2 then Inl (ConnectionError ''refused'') else Inr payload_ok)"

definition sp_fail5 :: "nat \<Rightarrow> exn + json" where
  "sp_fail5 = (\<lambda>n. if n = 4 then Inl TimeoutError else Inl (ConnectionError ''refused''))"

definition sp_decode :: "nat \<Rightarrow> exn + json" where
  "sp_decode = (\<lambda>n. if n = 0 then Inl JSONDecodeError else Inr payload_ok)"

definition sp_invalid :: "nat \<Rightarrow> exn + json" where
  "sp_invalid =
     (\<lambda>n. if n = 0 then Inr (JObj [(''message'', JStr msg_illegal_authorization)])
          else Inr payload_ok)"

definition sp_no_content :: "nat \<Rightarrow> exn + json" where
  "sp_no_content = (\<lambda>n. Inr (JObj [(''status'', JInt 200)]))"

text \<open>A body that is JSON but not a mapping: the empty array.\<close>

definition sp_array :: "nat \<Rightarrow> exn + json" where
  "sp_array = (\<lambda>n. Inr (JArr []))"

text \<open>Scripts for the blocking login POST: always the login response; one time-out and
  then the login response; a response whose \<^verbatim>\<open>userInfo\<close> is the empty mapping.\<close>

definition rp_ok :: "nat \<Rightarrow> exn + json" where
  "rp_ok = (\<lambda>n. Inr login_ok)"

definition rp_timeout1 :: "nat \<Rightarrow> exn + json" where
  "rp_timeout1 = (\<lambda>n. if n = 0 then Inl TimeoutError else Inr login_ok)"

definition rp_empty_user :: "nat \<Rightarrow> exn + json" where
  "rp_empty_user = (\<lambda>n. Inr (JObj [(''content'', JObj [(''userInfo'', JObj [])])]))"

section \<open>Sequencing\<close>

lemma then_do_Inr: "m s = (Inr v, s') \<Longrightarrow> then_do m f s = f v s'"
  by (simp add: then_do_def)

lemma then_do_Inl: "m s = (Inl x, s') \<Longrightarrow> then_do m f s = (Inl x, s')"
  by (simp add: then_do_def)

section \<open>Construction needs a running event loop\<close>

text \<open>
  C10. Outside a running event loop the constructor raises (the RuntimeError of
  \<^verbatim>\<open>asyncio.get_running_loop()\<close>) and returns no client; inside one it captures the loop at
  once, while the configuration, the connection pool and the session are still unset.
\<close>

theorem init_requires_running_loop:
  "(running_loop e = None \<longrightarrow> init e = Inl RuntimeError) \<and>
   (\<forall>l. running_loop e = Some l \<longrightarrow>
      (\<exists>c. init e = Inr c \<and> priv_loop c = l \<and> priv_config c = None \<and>
           priv_connector c = None \<and> priv_session c = None))"
  by (simp add: init_def)

theorem init_requires_running_loop_witness:
  "init ((example_env rp_ok sp_fail2)\<lparr>running_loop := None\<rparr>)
     = Inl RuntimeError \<and>
   init (example_env rp_ok sp_fail2) = Inr example_client"
  using init_requires_running_loop
    [of "(example_env rp_ok sp_fail2)\<lparr>running_loop := None\<rparr>"]
  by (simp add: example_env_def example_client_def init_def)

section \<open>The signature\<close>

lemma config_get_eq:
  "fst (config e s) = Inr c \<Longrightarrow> map_of c g = Some (JObj d) \<Longrightarrow>
   config_get e g k s =
     ((case map_of d k of None \<Rightarrow> Inl (KeyError k) | Some x \<Rightarrow> Inr x), snd (config e s))"
  by (auto simp: config_get_def then_do_def lift_def getitem_def split: prod.splits sum.splits)

lemma config_again:
  "fst (config e s) = Inr c \<Longrightarrow> config e (snd (config e s)) = (Inr c, snd (config e s))"
  by (auto simp: config_def split: option.splits sum.splits)

text \<open>
  C2. With the configuration holding the strings \<open>PostKey\<close> and \<open>PostKeyVersion\<close>, the
  \<^verbatim>\<open>pa\<close> property returns exactly the specification's formula, at the clock reading it
  makes and the client's session identifier: a function of these four values alone.
\<close>

theorem pa_matches_spec:
  assumes "fst (config e s) = Inr c"
    and "map_of c ''paInfo'' = Some (JObj p)"
    and "map_of p ''PostKey'' = Some (JStr k)"
    and "map_of p ''PostKeyVersion'' = Some (JStr v)"
  shows "fst (pa e s) =
           Inr (computeSignature_spec (clock_ms e (time_calls s)) (priv_uuid s) k v)"
  using assms
  by (auto simp: pa_def config_get_def then_do_def lift_def getitem_def config_def as_str_def
      now_ms_def computeSignature_spec_def Let_def split: option.splits sum.splits prod.splits)

section \<open>The retry wrappers\<close>

lemma retry_call_Inr: "f s = (Inr v, s') \<Longrightarrow> retry_call n w wrap f s = (Inr v, s')"
  by (simp add: retry_call.simps)

lemma retry_call_last:
  "f s = (Inl x, s') \<Longrightarrow> n \<le> 1 \<Longrightarrow> retry_call n w wrap f s = (Inl (wrap x), s')"
  by (simp add: retry_call.simps)

lemma retry_call_again:
  "f s = (Inl x, s') \<Longrightarrow> 1 < n \<Longrightarrow>
   retry_call n w wrap f s = retry_call (n - 1) w wrap f (emit (SleepMs w) s')"
  by (simp add: retry_call.simps)

lemma retry_call_succeeds_at:
  "k < n \<Longrightarrow> (\<forall>j<k. isl (fst (f (attempt_start w f j s)))) \<Longrightarrow>
   \<not> isl (fst (f (attempt_start w f k s))) \<Longrightarrow>
   retry_call n w wrap f s = f (attempt_start w f k s)"
proof (induction k arbitrary: n s)
  case 0
  then have "\<not> isl (fst (f s))" by simp
  then obtain v s' where "f s = (Inr v, s')"
    by (cases "f s"; cases "fst (f s)") auto
  then show ?case by (simp add: retry_call_Inr)
next
  case (Suc k)
  from Suc.prems(2) have "isl (fst (f (attempt_start w f 0 s)))" by blast
  then obtain x s' where fs: "f s = (Inl x, s')"
    by (cases "f s") (auto simp: isl_def)
  have n: "1 < n" using Suc.prems(1) by simp
  have "retry_call (n - 1) w wrap f (emit (SleepMs w) s') =
          f (attempt_start w f k (emit (SleepMs w) s'))"
  proof (rule Suc.IH)
    show "k < n - 1" using Suc.prems(1) by simp
    show "\<forall>j<k. isl (fst (f (attempt_start w f j (emit (SleepMs w) s'))))"
      using Suc.prems(2) fs by (auto dest: spec [where x = "Suc j" for j])
    show "\<not> isl (fst (f (attempt_start w f k (emit (SleepMs w) s'))))"
      using Suc.prems(3) fs by simp
  qed
  then show ?case using fs n by (simp add: retry_call_again)
qed

lemma retry_call_exhausted:
  "0 < n \<Longrightarrow> (\<forall>j<n. isl (fst (f (attempt_start w f j s)))) \<Longrightarrow>
   retry_call n w wrap f s =
     (Inl (wrap (projl (fst (f (attempt_start w f (n - 1) s))))),
      snd (f (attempt_start w f (n - 1) s)))"
proof (induction n arbitrary: s)
  case 0
  then show ?case by simp
next
  case (Suc n)
  from Suc.prems(2) have "isl (fst (f (attempt_start w f 0 s)))" by blast
  then obtain x s' where fs: "f s = (Inl x, s')"
    by (cases "f s") (auto simp: isl_def)
  show ?case
  proof (cases "n = 0")
    case True
    then show ?thesis using fs by (simp add: retry_call_last)
  next
    case False
    have "retry_call n w wrap f (emit (SleepMs w) s') =
            (Inl (wrap (projl (fst (f (attempt_start w f (n - 1) (emit (SleepMs w) s')))))),
             snd (f (attempt_start w f (n - 1) (emit (SleepMs w) s'))))"
    proof (rule Suc.IH)
      show "0 < n" using False by simp
      show "\<forall>j<n. isl (fst (f (attempt_start w f j (emit (SleepMs w) s'))))"
        using Suc.prems(2) fs by (auto dest: spec [where x = "Suc j" for j])
    qed
    moreover have "attempt_start w f n s = attempt_start w f (n - 1) (emit (SleepMs w) s')"
      using False fs by (cases n) simp_all
    ultimately show ?thesis using fs False by (simp add: retry_call_again)
  qed
qed


text \<open>
  C3 (as amended). A dispatch makes at most 5 attempts, 3000 ms apart. If the attempts
  before attempt \<open>k\<close> (\<open>k < 5\<close>, counted from 0) raise and attempt \<open>k\<close> returns, the dispatch
  returns that attempt's result and makes no further attempt. If all 5 attempts raise, the
  dispatch raises RetryError around the exception of the fifth: the transport error itself
  is not what the caller receives.
\<close>

theorem apost_retries_then_wraps:
  "(k < 5 \<and> (\<forall>j<k. isl (fst (apost_once e h (attempt_start 3000 (apost_once e h) j s)))) \<and>
    fst (apost_once e h (attempt_start 3000 (apost_once e h) k s)) = Inr r
    \<longrightarrow> fst (apost e h s) = Inr r \<and>
        apost e h s = apost_once e h (attempt_start 3000 (apost_once e h) k s)) \<and>
   ((\<forall>j<5. isl (fst (apost_once e h (attempt_start 3000 (apost_once e h) j s)))) \<and>
    fst (apost_once e h (attempt_start 3000 (apost_once e h) 4 s)) = Inl x
    \<longrightarrow> fst (apost e h s) = Inl (RetryError x))"
proof (intro conjI impI)
  assume a: "k < 5 \<and> (\<forall>j<k. isl (fst (apost_once e h (attempt_start 3000 (apost_once e h) j s)))) \<and>
    fst (apost_once e h (attempt_start 3000 (apost_once e h) k s)) = Inr r"
  then have "retry_call 5 3000 RetryError (apost_once e h) s =
               apost_once e h (attempt_start 3000 (apost_once e h) k s)"
    by (intro retry_call_succeeds_at) auto
  then show "apost e h s = apost_once e h (attempt_start 3000 (apost_once e h) k s)"
    by (simp add: apost_def)
  with a show "fst (apost e h s) = Inr r" by simp
next
  assume a: "(\<forall>j<5. isl (fst (apost_once e h (attempt_start 3000 (apost_once e h) j s)))) \<and>
    fst (apost_once e h (attempt_start 3000 (apost_once e h) 4 s)) = Inl x"
  then have "retry_call 5 3000 RetryError (apost_once e h) s =
     (Inl (RetryError (projl (fst (apost_once e h (attempt_start 3000 (apost_once e h) (5 - 1) s))))),
      snd (apost_once e h (attempt_start 3000 (apost_once e h) (5 - 1) s)))"
    by (intro retry_call_exhausted) auto
  with a show "fst (apost e h s) = Inl (RetryError x)"
    by (simp add: apost_def)
qed

section \<open>Decode failures\<close>

lemma session_ok: "\<exists>s'. session s = (Inr (), s') \<and> apost_calls s' = apost_calls s"
  by (auto simp: session_def connector_def new_session_def then_do_def emit_def
      split: option.splits)

lemma gated_post_outcome: "fst (gated_post e s) = session_post e (apost_calls s)"
proof -
  obtain s' where "session (emit Acquire s) = (Inr (), s')" "apost_calls s' = apost_calls (emit Acquire s)"
    using session_ok by blast
  then show ?thesis by (simp add: gated_post_def emit_def)
qed

lemma retry_call_wrapped:
  "fst (retry_call n w RetryError f s) = Inl x \<Longrightarrow> \<exists>y. x = RetryError y"
proof (induction n arbitrary: s)
  case 0
  then show ?case
    by (cases "f s"; cases "fst (f s)") (auto simp: retry_call.simps)
next
  case (Suc n)
  show ?case
  proof (cases "f s")
    case (Pair r s')
    show ?thesis
    proof (cases r)
      case (Inl y)
      show ?thesis
      proof (cases "n = 0")
        case True
        then show ?thesis using Suc.prems Pair Inl by (auto simp: retry_call.simps)
      next
        case False
        then have "retry_call (Suc n) w RetryError f s =
                     retry_call n w RetryError f (emit (SleepMs w) s')"
          using Pair Inl by (simp add: retry_call.simps)
        then show ?thesis using Suc.prems Suc.IH by simp
      qed
    next
      case (Inr v)
      then show ?thesis using Suc.prems Pair by (simp add: retry_call.simps)
    qed
  qed
qed

lemma apost_errors_wrapped: "fst (apost e h s) = Inl x \<Longrightarrow> \<exists>y. x = RetryError y"
  unfolding apost_def by (rule retry_call_wrapped)

text \<open>
  C4 (as amended). When the POST of the first attempt raises, be it a JSON decode failure
  or a connection or time-out failure, the dispatch does not surface it: it waits 3000 ms
  and goes on with the four attempts left, and whatever it finally raises is a RetryError,
  never that exception itself.
\<close>

theorem failed_attempt_is_retried:
  assumes "fst (request_headers e h s) = Inr hs"
    and "session_post e (apost_calls (snd (request_headers e h s))) = Inl x"
    and "x = JSONDecodeError \<or> is_transport x"
  shows "apost e h s =
           retry_call 4 3000 RetryError (apost_once e h)
             (emit (SleepMs 3000) (snd (gated_post e (snd (request_headers e h s))))) \<and>
         fst (apost e h s) \<noteq> Inl x"
proof -
  obtain s1 where h: "request_headers e h s = (Inr hs, s1)"
    using assms(1) by (cases "request_headers e h s") auto
  have "fst (gated_post e s1) = Inl x"
    using assms(2) h by (simp add: gated_post_outcome)
  then obtain s2 where g: "gated_post e s1 = (Inl x, s2)"
    by (cases "gated_post e s1") auto
  have once: "apost_once e h s = (Inl x, s2)"
    by (simp add: apost_once_def then_do_def h g)
  have "apost e h s = retry_call (5 - 1) 3000 RetryError (apost_once e h) (emit (SleepMs 3000) s2)"
    unfolding apost_def
    by (rule retry_call_again [where f = "apost_once e h" and s = s, OF once]) simp
  then have 1: "apost e h s =
      retry_call 4 3000 RetryError (apost_once e h)
        (emit (SleepMs 3000) (snd (gated_post e (snd (request_headers e h s)))))"
    by (simp add: h g)
  have 2: "fst (apost e h s) \<noteq> Inl x"
    using apost_errors_wrapped [of e h s x] assms(3) by auto
  show ?thesis using 1 2 by blast
qed

section \<open>The admission gate\<close>






section \<open>What a successful step tells\<close>

lemma then_do_InrE:
  assumes "then_do m f s = (Inr v, s')"
  obtains u s1 where "m s = (Inr u, s1)" and "f u s1 = (Inr v, s')"
  using assms by (auto simp: then_do_def split: prod.splits sum.splits)

lemma lift_InrE:
  assumes "lift r s = (Inr v, s')"
  obtains "r = Inr v" and "s' = s"
  using assms by (auto simp: lift_def)

lemma config_get_frame:
  "config_get e g k s = (r, s') \<Longrightarrow>
   priv_uuid s' = priv_uuid s \<and> priv_login_user s' = priv_login_user s \<and>
   rpost_calls s' = rpost_calls s \<and> time_calls s' = time_calls s"
  by (auto simp: config_get_def config_def then_do_def lift_def
      split: option.splits sum.splits prod.splits)

lemma pa_Inr:
  assumes "pa e s = (Inr sig, s')"
  shows "\<exists>k v. sig = computeSignature_spec (clock_ms e (time_calls s)) (priv_uuid s) k v \<and>
           time_calls s' = Suc (time_calls s) \<and> priv_uuid s' = priv_uuid s \<and>
           priv_login_user s' = priv_login_user s \<and> rpost_calls s' = rpost_calls s"
proof -
  from assms obtain pk s1 pv s2 where
    1: "config_get e ''paInfo'' ''PostKey'' s = (Inr pk, s1)" and
    2: "config_get e ''paInfo'' ''PostKeyVersion'' s1 = (Inr pv, s2)" and
    3: "then_do (now_ms e) (\<lambda>t. then_do (lift (as_str pk)) (\<lambda>k.
          then_do (lift (as_str pv)) (\<lambda>v.
            lift (Inr (b64encode (str_int t @ '','' @ priv_uuid s2 @ '','' @
               md5_hexdigest (str_int t @ priv_uuid s2 @ k) @ '','' @ v)))))) s2 = (Inr sig, s')"
    unfolding pa_def by (elim then_do_InrE) (simp add: Let_def)
  from config_get_frame [OF 1] config_get_frame [OF 2]
  have f: "priv_uuid s2 = priv_uuid s" "priv_login_user s2 = priv_login_user s"
    "rpost_calls s2 = rpost_calls s" "time_calls s2 = time_calls s" by simp_all
  from 3 show ?thesis
    using f
    by (auto simp: then_do_def lift_def now_ms_def as_str_def computeSignature_spec_def
        split: sum.splits json.splits)
qed

section \<open>Login and headers\<close>

lemma rpost_once_eq:
  "rpost_once e s =
     (requests_post e (rpost_calls s),
      s\<lparr>rpost_calls := Suc (rpost_calls s), trace := trace s @ [RPost]\<rparr>)"
  by (simp add: rpost_once_def emit_def)

lemma rpost_Inr:
  assumes "rpost e s = (Inr j, s')"
  shows "rpost_calls s < rpost_calls s' \<and> requests_post e (rpost_calls s' - 1) = Inr j \<and>
         priv_login_user s' = priv_login_user s"
  using assms
  by (auto simp: rpost_def retry_call.simps rpost_once_eq emit_def split: sum.splits if_splits)

lemma rpost_Inl:
  assumes "rpost e s = (Inl x, s')"
  shows "requests_post e (rpost_calls s) \<noteq> Inr j0 \<and>
         rpost_calls s' = rpost_calls s + 3 \<and>
         requests_post e (rpost_calls s + 2) = Inl x \<and>
         priv_login_user s' = priv_login_user s \<and>
         trace s' = trace s @ [RPost, SleepMs 3, RPost, SleepMs 3, RPost]"
  using assms
  by (auto simp: rpost_def retry_call.simps rpost_once_eq emit_def eval_nat_numeral
      split: sum.splits if_splits)


lemma then_do_InlE:
  assumes "then_do m f s = (Inl x, s')"
  obtains "m s = (Inl x, s')" | u s1 where "m s = (Inr u, s1)" and "f u s1 = (Inl x, s')"
  using assms by (auto simp: then_do_def split: prod.splits sum.splits)

lemma pa_frame:
  "pa e s = (r, s') \<Longrightarrow>
   priv_uuid s' = priv_uuid s \<and> priv_login_user s' = priv_login_user s \<and>
   rpost_calls s' = rpost_calls s"
  by (auto simp: pa_def config_get_def then_do_def lift_def getitem_def config_def as_str_def
      now_ms_def Let_def split: option.splits sum.splits prod.splits json.splits)

lemma rpost_frame: "rpost e s = (r, s') \<Longrightarrow> priv_login_user s' = priv_login_user s"
  using rpost_Inr [of e s _ s'] rpost_Inl [of e s _ s'] by (cases r) auto

lemma user_login_Inr:
  assumes "user_login e s = (Inr u, s')"
  shows "rpost_calls s < rpost_calls s' \<and>
         (\<exists>j c ui. requests_post e (rpost_calls s' - 1) = Inr j \<and>
            getitem j ''content'' = Inr c \<and> getitem c ''userInfo'' = Inr ui \<and>
            LoginUserInfo ui = Inr (priv_login_user s'))"
proof -
  from assms obtain sig s1 a s2 b s3 c s4 j s5 cn s6 ui s7 lu s8 where
    1: "pa e s = (Inr sig, s1)" and
    2: "config_get e ''Headers'' ''appInfo'' s1 = (Inr a, s2)" and
    3: "config_get e ''userInfo'' ''username'' s2 = (Inr b, s3)" and
    4: "config_get e ''userInfo'' ''password'' s3 = (Inr c, s4)" and
    5: "rpost e s4 = (Inr j, s5)" and
    6: "lift (getitem j ''content'') s5 = (Inr cn, s6)" and
    7: "lift (getitem cn ''userInfo'') s6 = (Inr ui, s7)" and
    8: "lift (LoginUserInfo ui) s7 = (Inr lu, s8)" and
    9: "set_login_user lu s8 = (Inr u, s')"
    unfolding user_login_def by (elim then_do_InrE) blast
  have f: "rpost_calls s4 = rpost_calls s"
    using pa_frame [OF 1] config_get_frame [OF 2] config_get_frame [OF 3] config_get_frame [OF 4]
    by simp
  have g: "s6 = s5" "s7 = s5" "s8 = s5" "getitem j ''content'' = Inr cn"
    "getitem cn ''userInfo'' = Inr ui" "LoginUserInfo ui = Inr lu"
    using 6 7 8 by (auto simp: lift_def)
  have h: "s' = s5\<lparr>priv_login_user := lu\<rparr>"
    using 9 g by (simp add: set_login_user_def)
  show ?thesis
    using rpost_Inr [OF 5] f g h by auto
qed

lemma user_login_Inl:
  assumes "user_login e s = (Inl x, s')"
  shows "priv_login_user s' = priv_login_user s"
  using assms unfolding user_login_def
  apply (elim then_do_InlE)
          apply (auto dest!: pa_frame config_get_frame rpost_frame
      simp: lift_def set_login_user_def)
  done

text \<open>
  C7 (as amended). Whenever the \<^verbatim>\<open>headers\<close> property returns a mapping: its \<^verbatim>\<open>token\<close> is
  the token the client holds at that moment and its \<^verbatim>\<open>pa\<close> is the signature of the clock
  reading made last; if no token was held when the property was entered, a blocking login
  POST has returned in between and the login-user state is the \<^verbatim>\<open>LoginUserInfo\<close> of the
  \<^verbatim>\<open>userInfo\<close> of its response (so the token is present exactly when that \<^verbatim>\<open>userInfo\<close>
  carries one); if a token was held, no login is made and the state is unchanged.
\<close>

theorem headers_carry_pa_and_stored_token:
  assumes "headers e s = (Inr hs, s')"
  shows "map_of hs ''token'' = Some (token_hval (priv_login_user s')) \<and>
         (\<exists>k v. map_of hs ''pa'' =
            Some (Plain (JStr (computeSignature_spec (clock_ms e (time_calls s' - 1))
                                 (priv_uuid s') k v)))) \<and>
         (token (priv_login_user s) = None \<longrightarrow>
            rpost_calls s < rpost_calls s' \<and>
            (\<exists>j c ui. requests_post e (rpost_calls s' - 1) = Inr j \<and>
               getitem j ''content'' = Inr c \<and> getitem c ''userInfo'' = Inr ui \<and>
               LoginUserInfo ui = Inr (priv_login_user s'))) \<and>
         (token (priv_login_user s) \<noteq> None \<longrightarrow>
            priv_login_user s' = priv_login_user s \<and> rpost_calls s' = rpost_calls s)"
proof -
  from assms obtain a1 s1 a2 s2 a3 s3 a4 s4 a5 s5 u s6 sig s7 where
    1: "config_get e ''Headers'' ''user_agent'' s = (Inr a1, s1)" and
    2: "config_get e ''Headers'' ''content_type'' s1 = (Inr a2, s2)" and
    3: "config_get e ''Headers'' ''host'' s2 = (Inr a3, s3)" and
    4: "config_get e ''Headers'' ''content_type'' s3 = (Inr a4, s4)" and
    5: "config_get e ''Headers'' ''appInfo'' s4 = (Inr a5, s5)" and
    6: "login_if_no_token e s5 = (Inr u, s6)" and
    7: "pa e s6 = (Inr sig, s7)" and
    8: "finish_headers
         [(''User-Agent'', Plain a1), (''Content-Type'', Plain a2), (''Host'', Plain a3),
          (''Connection'', Plain (JStr ''close'')), (''Accept-Encoding'', Plain a4),
          (''appInfo'', Dumped a5)] sig s7 = (Inr hs, s')"
    unfolding headers_def by (elim then_do_InrE) blast
  have f5: "priv_login_user s5 = priv_login_user s" "rpost_calls s5 = rpost_calls s"
    using config_get_frame [OF 1] config_get_frame [OF 2] config_get_frame [OF 3]
      config_get_frame [OF 4] config_get_frame [OF 5] by simp_all
  from 8 have e8: "s' = s7" and hs: "hs =
      [(''User-Agent'', Plain a1), (''Content-Type'', Plain a2), (''Host'', Plain a3),
       (''Connection'', Plain (JStr ''close'')), (''Accept-Encoding'', Plain a4),
       (''appInfo'', Dumped a5), (''pa'', Plain (JStr sig)),
       (''token'', token_hval (priv_login_user s7))]"
    by (auto simp: finish_headers_def)
  from pa_Inr [OF 7] obtain k v where
    p: "sig = computeSignature_spec (clock_ms e (time_calls s6)) (priv_uuid s6) k v"
      "time_calls s7 = Suc (time_calls s6)" "priv_uuid s7 = priv_uuid s6"
      "priv_login_user s7 = priv_login_user s6" "rpost_calls s7 = rpost_calls s6"
    by blast
  have t: "map_of hs ''token'' = Some (token_hval (priv_login_user s'))"
    using hs e8 by simp
  have q: "\<exists>k v. map_of hs ''pa'' =
            Some (Plain (JStr (computeSignature_spec (clock_ms e (time_calls s' - 1))
                                 (priv_uuid s') k v)))"
    using hs e8 p by auto
  have l: "rpost_calls s < rpost_calls s' \<and>
            (\<exists>j c ui. requests_post e (rpost_calls s' - 1) = Inr j \<and>
               getitem j ''content'' = Inr c \<and> getitem c ''userInfo'' = Inr ui \<and>
               LoginUserInfo ui = Inr (priv_login_user s'))"
    if "token (priv_login_user s) = None"
  proof -
    have "user_login e s5 = (Inr u, s6)"
      using 6 that f5 by (simp add: login_if_no_token_def)
    from user_login_Inr [OF this] show ?thesis
      using f5 p e8 by simp
  qed
  have n: "priv_login_user s' = priv_login_user s \<and> rpost_calls s' = rpost_calls s"
    if "token (priv_login_user s) \<noteq> None"
  proof -
    have "s6 = s5"
      using 6 that f5 by (simp add: login_if_no_token_def)
    then show ?thesis using f5 p e8 by simp
  qed
  show ?thesis using t q l n by blast
qed

lemma after_response_invalidation:
  assumes "is_invalidation (map_of d ''message'')" and "user_login e s = (Inr u, s')"
  shows "after_response e (JObj d) s = (Inr None, s')"
  using assms by (simp add: after_response_def dict_get_def then_do_def lift_def)

lemma after_response_other:
  assumes "\<not> is_invalidation (map_of d ''message'')"
  shows "after_response e (JObj d) s = (Inr (Some (JObj d)), s)"
  using assms by (simp add: after_response_def dict_get_def then_do_def lift_def)

section \<open>Endpoint projections\<close>

lemma retry_call_all_fail:
  "(\<And>s. isl (fst (f s))) \<Longrightarrow> isl (fst (retry_call n w wrap f s))"
proof (induction n arbitrary: s)
  case 0
  from 0 [of s] obtain x s' where "f s = (Inl x, s')"
    by (cases "f s"; cases "fst (f s)") auto
  then show ?case by (simp add: retry_call_last)
next
  case (Suc n)
  from Suc.prems [of s] obtain x s' where fs: "f s = (Inl x, s')"
    by (cases "f s"; cases "fst (f s)") auto
  show ?case
  proof (cases "n = 0")
    case True
    then show ?thesis using fs by (simp add: retry_call_last)
  next
    case False
    then have "retry_call (Suc n) w wrap f s = retry_call n w wrap f (emit (SleepMs w) s')"
      using fs by (simp add: retry_call_again)
    then show ?thesis using Suc.IH [OF Suc.prems] by simp
  qed
qed

lemma after_response_nonmapping:
  assumes "\<forall>d. j \<noteq> JObj d"
  shows "after_response e j s = (Inl AttributeError, s)"
  using assms by (cases j) (auto simp: after_response_def dict_get_def then_do_def lift_def)

lemma apost_once_nonmapping:
  assumes "\<And>n. \<exists>j. session_post e n = Inr j \<and> (\<forall>d. j \<noteq> JObj d)"
  shows "isl (fst (apost_once e h s))"
proof (rule ccontr)
  assume "\<not> isl (fst (apost_once e h s))"
  then obtain r s' where "apost_once e h s = (Inr r, s')"
    by (cases "apost_once e h s"; cases "fst (apost_once e h s)") auto
  then obtain s1 j s2 where
    g: "gated_post e s1 = (Inr j, s2)" and a: "after_response e j s2 = (Inr r, s')"
    unfolding apost_once_def by (elim then_do_InrE) blast
  have "session_post e (apost_calls s1) = Inr j"
    using gated_post_outcome [of e s1] g by simp
  then have "\<forall>d. j \<noteq> JObj d"
    using assms [of "apost_calls s1"] by auto
  from after_response_nonmapping [OF this] a show False by simp
qed

lemma endpoint_passes_failure:
  assumes "fst (apost e None s) = Inl x"
  shows "get_starBasicInfo e uid s = (Inl x, snd (apost e None s)) \<and>
         get_userInfo e uid s = (Inl x, snd (apost e None s)) \<and>
         get_roomInfo e uid s = (Inl x, snd (apost e None s))"
proof -
  obtain s' where "apost e None s = (Inl x, s')"
    using assms by (cases "apost e None s") auto
  then show ?thesis
    by (simp add: get_starBasicInfo_def get_userInfo_def get_roomInfo_def then_do_def)
qed

text \<open>
  C8 (as amended). When the dispatch returns a mapping without the key \<^verbatim>\<open>content\<close>, each
  of the three endpoint methods raises Python's KeyError \<^verbatim>\<open>'content'\<close> and builds no
  record. That failure differs from every failure of the dispatch itself, which the
  endpoint passes on as it is and which is always a RetryError; a response body that is
  not a mapping is such a failure of the dispatch, and reaches the caller as a RetryError
  too.
\<close>

theorem endpoints_report_missing_content:
  "(fst (apost e None s) = Inr (Some (JObj d)) \<and> map_of d ''content'' = None \<longrightarrow>
      get_starBasicInfo e uid s = (Inl (KeyError ''content''), snd (apost e None s)) \<and>
      get_userInfo e uid s = (Inl (KeyError ''content''), snd (apost e None s)) \<and>
      get_roomInfo e uid s = (Inl (KeyError ''content''), snd (apost e None s))) \<and>
   (fst (apost e None s) = Inl x \<longrightarrow>
      (\<exists>y. x = RetryError y) \<and>
      get_starBasicInfo e uid s = (Inl x, snd (apost e None s)) \<and>
      get_userInfo e uid s = (Inl x, snd (apost e None s)) \<and>
      get_roomInfo e uid s = (Inl x, snd (apost e None s))) \<and>
   ((\<forall>n. \<exists>j. session_post e n = Inr j \<and> (\<forall>d'. j \<noteq> JObj d')) \<longrightarrow>
      (\<exists>y. fst (apost e None s) = Inl (RetryError y)))"
proof (intro conjI impI)
  assume a: "fst (apost e None s) = Inr (Some (JObj d)) \<and> map_of d ''content'' = None"
  then obtain s' where r: "apost e None s = (Inr (Some (JObj d)), s')"
    by (cases "apost e None s") auto
  have c: "content_of (Some (JObj d)) = Inl (KeyError ''content'')"
    using a by (simp add: content_of_def getitem_def)
  show "get_starBasicInfo e uid s = (Inl (KeyError ''content''), snd (apost e None s))"
    by (simp add: get_starBasicInfo_def project_def then_do_def lift_def r c)
  show "get_userInfo e uid s = (Inl (KeyError ''content''), snd (apost e None s))"
    by (simp add: get_userInfo_def project_def then_do_def lift_def r c)
  show "get_roomInfo e uid s = (Inl (KeyError ''content''), snd (apost e None s))"
    by (simp add: get_roomInfo_def project_def then_do_def lift_def r c)
next
  assume x: "fst (apost e None s) = Inl x"
  show "\<exists>y. x = RetryError y" using apost_errors_wrapped [OF x] .
  show "get_starBasicInfo e uid s = (Inl x, snd (apost e None s))"
    using endpoint_passes_failure [OF x] by blast
  show "get_userInfo e uid s = (Inl x, snd (apost e None s))"
    using endpoint_passes_failure [OF x] by blast
  show "get_roomInfo e uid s = (Inl x, snd (apost e None s))"
    using endpoint_passes_failure [OF x] by blast
next
  assume n: "\<forall>n. \<exists>j. session_post e n = Inr j \<and> (\<forall>d'. j \<noteq> JObj d')"
  have "isl (fst (apost e None s))"
    unfolding apost_def
    by (rule retry_call_all_fail) (rule apost_once_nonmapping, use n in blast)
  then obtain x where x: "fst (apost e None s) = Inl x"
    by (cases "fst (apost e None s)") auto
  from apost_errors_wrapped [OF x] x show "\<exists>y. fst (apost e None s) = Inl (RetryError y)"
    by auto
qed

section \<open>Lazy resources\<close>

lemma connector_once:
  "priv_connector s = Some c \<Longrightarrow> connector s = (Inr c, s)"
  by (simp add: connector_def)

lemma connector_sets_field:
  "priv_connector (snd (connector s)) \<noteq> None"
  by (simp add: connector_def emit_def split: option.splits)

lemma session_once:
  "priv_session s = Some u \<Longrightarrow> session s = (Inr u, s)"
  by (simp add: session_def)

lemma session_sets_fields:
  "priv_session (snd (session s)) \<noteq> None \<and>
   (priv_session s = None \<longrightarrow> priv_connector (snd (session s)) \<noteq> None)"
  by (auto simp: session_def connector_def new_session_def then_do_def emit_def
      split: option.splits)

lemma aexit_after_use:
  "priv_connector s = Some c \<Longrightarrow> trace (snd (aexit s)) = trace s @ [CloseConnector]"
  by (simp add: aexit_def connector_def close_connector_def then_do_def emit_def)

section \<open>Runs of the concrete client\<close>

lemmas eval_defs =
  apost_def apost_once_def request_headers_def after_response_def gated_post_def session_def
  connector_def new_session_def then_do_def lift_def emit_def dict_get_def is_invalidation_def
  example_env_def example_client_def msg_token_decrypt_failed_def msg_illegal_authorization_def
  headers_def finish_headers_def login_if_no_token_def user_login_def rpost_def rpost_once_def
  set_login_user_def pa_def config_get_def config_def getitem_def as_str_def now_ms_def
  LoginUserInfo_def token_hval_def example_config_def login_ok_def payload_ok_def Let_def
  retry_call.simps rp_ok_def


theorem apost_exhausted_counterexample:
  "session_post (example_env rp_ok sp_fail5) 4 = Inl TimeoutError \<and>
   fst (apost (example_env rp_ok sp_fail5) None example_client) = Inl (RetryError TimeoutError) \<and>
   fst (apost (example_env rp_ok sp_fail5) None example_client) \<noteq> Inl TimeoutError"
  by (simp add: eval_defs sp_fail5_def)

theorem apost_retries_then_wraps_witness:
  "fst (apost (example_env rp_ok sp_fail2) (Some []) example_client) = Inr (Some payload_ok) \<and>
   fst (apost (example_env rp_ok sp_fail5) (Some []) example_client) = Inl (RetryError TimeoutError)"
proof -
  let ?f = "apost_once (example_env rp_ok sp_fail2) (Some [])"
  let ?g = "apost_once (example_env rp_ok sp_fail5) (Some [])"
  have a0: "isl (fst (?f (attempt_start 3000 ?f 0 example_client)))"
    by (simp add: eval_defs sp_fail2_def)
  have a1: "isl (fst (?f (attempt_start 3000 ?f (Suc 0) example_client)))"
    by (simp add: eval_defs sp_fail2_def)
  have a2: "fst (?f (attempt_start 3000 ?f 2 example_client)) = Inr (Some payload_ok)"
    by (simp add: eval_defs sp_fail2_def numeral_2_eq_2)
  have a: "\<forall>j<2. isl (fst (?f (attempt_start 3000 ?f j example_client)))"
    using a0 a1 by (auto simp: less_Suc_eq numeral_2_eq_2)
  have b0: "isl (fst (?g (attempt_start 3000 ?g 0 example_client)))"
    by (simp add: eval_defs sp_fail5_def)
  have b1: "isl (fst (?g (attempt_start 3000 ?g (Suc 0) example_client)))"
    by (simp add: eval_defs sp_fail5_def)
  have b2: "isl (fst (?g (attempt_start 3000 ?g (Suc (Suc 0)) example_client)))"
    by (simp add: eval_defs sp_fail5_def)
  have b3: "isl (fst (?g (attempt_start 3000 ?g (Suc (Suc (Suc 0))) example_client)))"
    by (simp add: eval_defs sp_fail5_def)
  have b4: "fst (?g (attempt_start 3000 ?g 4 example_client)) = Inl TimeoutError"
    by (simp add: eval_defs sp_fail5_def eval_nat_numeral)
  have b: "\<forall>j<5. isl (fst (?g (attempt_start 3000 ?g j example_client)))"
    using b0 b1 b2 b3 b4 by (auto simp: less_Suc_eq eval_nat_numeral)
  have k: "(2::nat) < 5" by simp
  from apost_retries_then_wraps [of 2 "example_env rp_ok sp_fail2" "Some []" example_client
      "Some payload_ok"] k a a2
  have "fst (apost (example_env rp_ok sp_fail2) (Some []) example_client) = Inr (Some payload_ok)"
    by blast
  moreover from apost_retries_then_wraps [of 0 "example_env rp_ok sp_fail5" "Some []" example_client
      None TimeoutError] b b4
  have "fst (apost (example_env rp_ok sp_fail5) (Some []) example_client) = Inl (RetryError TimeoutError)"
    by blast
  ultimately show ?thesis by blast
qed


theorem failed_attempt_is_retried_witness:
  "session_post (example_env rp_ok sp_decode)
     (apost_calls (snd (request_headers (example_env rp_ok sp_decode) None example_client)))
     = Inl JSONDecodeError \<and>
   fst (apost (example_env rp_ok sp_decode) None example_client) \<noteq> Inl JSONDecodeError"
proof -
  have h: "\<exists>hs. fst (request_headers (example_env rp_ok sp_decode) None example_client) = Inr hs"
    by (simp add: eval_defs)
  have p: "session_post (example_env rp_ok sp_decode)
     (apost_calls (snd (request_headers (example_env rp_ok sp_decode) None example_client)))
     = Inl JSONDecodeError"
    by (simp add: eval_defs sp_decode_def)
  from h p failed_attempt_is_retried [of "example_env rp_ok sp_decode" None example_client _ JSONDecodeError]
  show ?thesis by blast
qed


theorem decode_failure_counterexample:
  "session_post (example_env rp_ok sp_decode) 0 = Inl JSONDecodeError \<and>
   fst (apost (example_env rp_ok sp_decode) None example_client) = Inr (Some payload_ok) \<and>
   apost_calls (snd (apost (example_env rp_ok sp_decode) None example_client)) = 2"
  by (simp add: eval_defs sp_decode_def)

section \<open>Session invalidation\<close>

text \<open>
  C1. The first response carries the invalidation message, the login that follows
  succeeds, and the server would answer a second POST with the payload. The dispatch makes
  one POST only and returns \<^verbatim>\<open>None\<close>; the endpoint then fails on \<^verbatim>\<open>None['content']\<close>.
\<close>

theorem invalidation_returns_None:
  "fst (apost (example_env rp_ok sp_invalid) None example_client) = Inr None \<and>
   apost_calls (snd (apost (example_env rp_ok sp_invalid) None example_client)) = 1 \<and>
   rpost_calls (snd (apost (example_env rp_ok sp_invalid) None example_client)) = 2 \<and>
   fst (get_userInfo (example_env rp_ok sp_invalid) 1 example_client) = Inl TypeError"
  by (simp add: eval_defs sp_invalid_def get_userInfo_def project_def content_of_def)

section \<open>Teardown\<close>

text \<open>
  C6. Leaving the managed scope of a client that never made a request: \<^verbatim>\<open>__aexit__\<close>
  builds the connection pool, through the property, and closes it.
\<close>

theorem aexit_builds_connector:
  "trace (snd (aexit example_client)) = [NewConnector, CloseConnector] \<and>
   priv_connector (snd (aexit example_client)) = Some Closed"
  by (simp add: aexit_def connector_def close_connector_def then_do_def emit_def
      example_client_def)

section \<open>Login backoff\<close>

text \<open>
  C5. The first login POST times out and the second succeeds: the login succeeds and
  stores the token, and the wait it made between the two attempts is 3 milliseconds
  (\<^verbatim>\<open>wait_fixed=3\<close> of \<^verbatim>\<open>retrying\<close>), not 3 seconds.
\<close>

theorem login_backoff_is_3_ms:
  "fst (user_login (example_env rp_timeout1 sp_fail2) example_client) = Inr () \<and>
   trace (snd (user_login (example_env rp_timeout1 sp_fail2) example_client)) =
     [RPost, SleepMs 3, RPost] \<and>
   token (priv_login_user (snd (user_login (example_env rp_timeout1 sp_fail2) example_client))) =
     Some (JStr ''t0k3n'')"
  by (simp add: eval_defs rp_timeout1_def)

section \<open>Headers after a login without a token\<close>

theorem headers_token_counterexample:
  "(case fst (headers (example_env rp_empty_user sp_fail2) example_client) of
      Inr hs \<Rightarrow> map_of hs ''token'' = Some NoneVal
    | Inl x \<Rightarrow> False) \<and>
   rpost_calls (snd (headers (example_env rp_empty_user sp_fail2) example_client)) = 1"
  by (simp add: eval_defs rp_empty_user_def)

theorem headers_carry_pa_and_stored_token_witness:
  "(case fst (headers (example_env rp_ok sp_fail2) example_client) of
      Inr hs \<Rightarrow> map_of hs ''token'' = Some (Plain (JStr ''t0k3n''))
    | Inl x \<Rightarrow> False) \<and>
   rpost_calls example_client <
     rpost_calls (snd (headers (example_env rp_ok sp_fail2) example_client))"
proof -
  have "\<exists>hs. fst (headers (example_env rp_ok sp_fail2) example_client) = Inr hs"
    by (simp add: eval_defs)
  then obtain hs s' where h: "headers (example_env rp_ok sp_fail2) example_client = (Inr hs, s')"
    by (cases "headers (example_env rp_ok sp_fail2) example_client") auto
  have t: "token (priv_login_user (snd (headers (example_env rp_ok sp_fail2) example_client))) =
             Some (JStr ''t0k3n'')"
    by (simp add: eval_defs)
  have n: "token (priv_login_user example_client) = None"
    by (simp add: example_client_def)
  from headers_carry_pa_and_stored_token [OF h] n t h
  show ?thesis by (simp add: token_hval_def)
qed

section \<open>Endpoints on responses without a payload\<close>

theorem endpoints_report_missing_content_witness:
  "fst (get_starBasicInfo (example_env rp_ok sp_no_content) 1 example_client) =
     Inl (KeyError ''content'') \<and>
   fst (get_userInfo (example_env rp_ok sp_no_content) 1 example_client) =
     Inl (KeyError ''content'') \<and>
   fst (get_roomInfo (example_env rp_ok sp_no_content) 1 example_client) =
     Inl (KeyError ''content'') \<and>
   (\<exists>y. fst (get_userInfo (example_env rp_ok sp_array) 1 example_client) = Inl (RetryError y))"
proof -
  have a: "fst (apost (example_env rp_ok sp_no_content) None example_client) =
             Inr (Some (JObj [(''status'', JInt 200)]))"
    by (simp add: eval_defs sp_no_content_def)
  have b: "map_of [(''status'', JInt 200)] ''content'' = None"
    by simp
  have n: "\<forall>n. \<exists>j. session_post (example_env rp_ok sp_array) n = Inr j \<and> (\<forall>d'. j \<noteq> JObj d')"
    by (simp add: example_env_def sp_array_def)
  from endpoints_report_missing_content
         [of "example_env rp_ok sp_no_content" example_client "[(''status'', JInt 200)]" 1] a b
  have 1: "get_starBasicInfo (example_env rp_ok sp_no_content) 1 example_client =
             (Inl (KeyError ''content''),
              snd (apost (example_env rp_ok sp_no_content) None example_client)) \<and>
           get_userInfo (example_env rp_ok sp_no_content) 1 example_client =
             (Inl (KeyError ''content''),
              snd (apost (example_env rp_ok sp_no_content) None example_client)) \<and>
           get_roomInfo (example_env rp_ok sp_no_content) 1 example_client =
             (Inl (KeyError ''content''),
              snd (apost (example_env rp_ok sp_no_content) None example_client))"
    by blast
  from endpoints_report_missing_content [of "example_env rp_ok sp_array" example_client _ 1] n
  obtain y where y: "fst (apost (example_env rp_ok sp_array) None example_client) =
                      Inl (RetryError y)"
    by blast
  from endpoints_report_missing_content
         [of "example_env rp_ok sp_array" example_client _ 1 "RetryError y"] y
  have 2: "get_userInfo (example_env rp_ok sp_array) 1 example_client =
             (Inl (RetryError y), snd (apost (example_env rp_ok sp_array) None example_client))"
    by blast
  show ?thesis using 1 2 by auto
qed

theorem endpoint_failure_not_distinct_counterexample:
  "session_post (example_env rp_ok sp_array) 0 = Inr (JArr []) \<and>
   fst (get_userInfo (example_env rp_ok sp_array) 1 example_client) =
     Inl (RetryError AttributeError) \<and>
   apost_calls (snd (get_userInfo (example_env rp_ok sp_array) 1 example_client)) = 5 \<and>
   fst (get_userInfo (example_env rp_ok sp_fail5) 1 example_client) =
     Inl (RetryError TimeoutError)"
  by (simp add: eval_defs sp_array_def sp_fail5_def get_userInfo_def project_def content_of_def)

section \<open>A golden vector for the signature\<close>

lemma replicate_numeral: "replicate (numeral k) x = x # replicate (pred_numeral k) x"
  by (simp add: numeral_eq_Suc)

lemma str_int_example: "str_int 1700000000000 = ''1700000000000''"
  by (simp add: str_int_def digits.simps)

lemma md5_words_example:
  "le_words (md5_pad (map of_char ''17000000000000123456789abcdef0123456789abcdefK7VKiPiVeXdeK7VK'')) =
     [0x30303731, 0x30303030, 0x30303030, 0x32313030, 0x36353433, 0x61393837, 0x65646362, 0x32313066, 0x36353433, 0x61393837, 0x65646362, 0x56374b66, 0x6950694b, 0x64586556, 0x56374b65, 0x0000804b] @
     [0x00000000, 0x00000000, 0x00000000, 0x00000000, 0x00000000, 0x00000000, 0x00000000, 0x00000000, 0x00000000, 0x00000000, 0x00000000, 0x00000000, 0x00000000, 0x00000000, 0x000001e8, 0x00000000]"
  by (simp add: md5_pad_def replicate_numeral)

lemma upt64_chunks:
  "[0..<64] =
     [0, 1, 2, 3, 4, 5, 6, 7, 8, 9, 10, 11, 12, 13, 14, 15] @
     [16, 17, 18, 19, 20, 21, 22, 23, 24, 25, 26, 27, 28, 29, 30, 31] @
     [32, 33, 34, 35, 36, 37, 38, 39, 40, 41, 42, 43, 44, 45, 46, 47] @
     [48, 49, 50, 51, 52, 53, 54, 55, 56, 57, 58, 59, 60, 61, 62, 63]"
  by (simp add: upt_rec)

lemma md5_block1_rounds0:
  "fold (md5_step [0x30303731, 0x30303030, 0x30303030, 0x32313030, 0x36353433, 0x61393837, 0x65646362, 0x32313066, 0x36353433, 0x61393837, 0x65646362, 0x56374b66, 0x6950694b, 0x64586556, 0x56374b65, 0x0000804b])
     [0, 1, 2, 3, 4, 5, 6, 7, 8, 9, 10, 11, 12, 13, 14, 15]
     (0x67452301, 0xefcdab89, 0x98badcfe, 0x10325476) = (0x93038700, 0x7606ccda, 0xd19f8fd2, 0xab0e19c1)"
  by (simp add: md5_step_def md5_K_def md5_S_def rotl32_def)

lemma md5_block1_rounds1:
  "fold (md5_step [0x30303731, 0x30303030, 0x30303030, 0x32313030, 0x36353433, 0x61393837, 0x65646362, 0x32313066, 0x36353433, 0x61393837, 0x65646362, 0x56374b66, 0x6950694b, 0x64586556, 0x56374b65, 0x0000804b])
     [16, 17, 18, 19, 20, 21, 22, 23, 24, 25, 26, 27, 28, 29, 30, 31]
     (0x93038700, 0x7606ccda, 0xd19f8fd2, 0xab0e19c1) = (0xd5622965, 0xa8d55eba, 0xa6c994f9, 0xb7441c57)"
  by (simp add: md5_step_def md5_K_def md5_S_def rotl32_def)

lemma md5_block1_rounds2:
  "fold (md5_step [0x30303731, 0x30303030, 0x30303030, 0x32313030, 0x36353433, 0x61393837, 0x65646362, 0x32313066, 0x36353433, 0x61393837, 0x65646362, 0x56374b66, 0x6950694b, 0x64586556, 0x56374b65, 0x0000804b])
     [32, 33, 34, 35, 36, 37, 38, 39, 40, 41, 42, 43, 44, 45, 46, 47]
     (0xd5622965, 0xa8d55eba, 0xa6c994f9, 0xb7441c57) = (0x3cb5d199, 0x36b152f7, 0xd0f86fff, 0x0c5ba0b2)"
  by (simp add: md5_step_def md5_K_def md5_S_def rotl32_def)

lemma md5_block1_rounds3:
  "fold (md5_step [0x30303731, 0x30303030, 0x30303030, 0x32313030, 0x36353433, 0x61393837, 0x65646362, 0x32313066, 0x36353433, 0x61393837, 0x65646362, 0x56374b66, 0x6950694b, 0x64586556, 0x56374b65, 0x0000804b])
     [48, 49, 50, 51, 52, 53, 54, 55, 56, 57, 58, 59, 60, 61, 62, 63]
     (0x3cb5d199, 0x36b152f7, 0xd0f86fff, 0x0c5ba0b2) = (0x27f87f5d, 0x40a6732f, 0xb9eadab3, 0x252a2810)"
  by (simp add: md5_step_def md5_K_def md5_S_def rotl32_def)

lemma md5_block1_example:
  "md5_block (0x67452301, 0xefcdab89, 0x98badcfe, 0x10325476)
     [0x30303731, 0x30303030, 0x30303030, 0x32313030, 0x36353433, 0x61393837, 0x65646362, 0x32313066, 0x36353433, 0x61393837, 0x65646362, 0x56374b66, 0x6950694b, 0x64586556, 0x56374b65, 0x0000804b] = (0x8f3da25e, 0x30741eb8, 0x52a5b7b1, 0x355c7c86)"
  unfolding md5_block_def upt64_chunks fold_append comp_apply md5_block1_rounds0 md5_block1_rounds1 md5_block1_rounds2 md5_block1_rounds3
  by simp

lemma md5_block2_rounds0:
  "fold (md5_step [0x00000000, 0x00000000, 0x00000000, 0x00000000, 0x00000000, 0x00000000, 0x00000000, 0x00000000, 0x00000000, 0x00000000, 0x00000000, 0x00000000, 0x00000000, 0x00000000, 0x000001e8, 0x00000000])
     [0, 1, 2, 3, 4, 5, 6, 7, 8, 9, 10, 11, 12, 13, 14, 15]
     (0x8f3da25e, 0x30741eb8, 0x52a5b7b1, 0x355c7c86) = (0x36a902d7, 0x17da1ea9, 0xf815a305, 0xdddca4c2)"
  by (simp add: md5_step_def md5_K_def md5_S_def rotl32_def)

lemma md5_block2_rounds1:
  "fold (md5_step [0x00000000, 0x00000000, 0x00000000, 0x00000000, 0x00000000, 0x00000000, 0x00000000, 0x00000000, 0x00000000, 0x00000000, 0x00000000, 0x00000000, 0x00000000, 0x00000000, 0x000001e8, 0x00000000])
     [16, 17, 18, 19, 20, 21, 22, 23, 24, 25, 26, 27, 28, 29, 30, 31]
     (0x36a902d7, 0x17da1ea9, 0xf815a305, 0xdddca4c2) = (0x68e96713, 0x1823454f, 0xcb207b45, 0x1dde67c7)"
  by (simp add: md5_step_def md5_K_def md5_S_def rotl32_def)

lemma md5_block2_rounds2:
  "fold (md5_step [0x00000000, 0x00000000, 0x00000000, 0x00000000, 0x00000000, 0x00000000, 0x00000000, 0x00000000, 0x00000000, 0x00000000, 0x00000000, 0x00000000, 0x00000000, 0x00000000, 0x000001e8, 0x00000000])
     [32, 33, 34, 35, 36, 37, 38, 39, 40, 41, 42, 43, 44, 45, 46, 47]
     (0x68e96713, 0x1823454f, 0xcb207b45, 0x1dde67c7) = (0xa3a7d727, 0xb20e052f, 0x3234e970, 0x5e66a97b)"
  by (simp add: md5_step_def md5_K_def md5_S_def rotl32_def)

lemma md5_block2_rounds3:
  "fold (md5_step [0x00000000, 0x00000000, 0x00000000, 0x00000000, 0x00000000, 0x00000000, 0x00000000, 0x00000000, 0x00000000, 0x00000000, 0x00000000, 0x00000000, 0x00000000, 0x00000000, 0x000001e8, 0x00000000])
     [48, 49, 50, 51, 52, 53, 54, 55, 56, 57, 58, 59, 60, 61, 62, 63]
     (0xa3a7d727, 0xb20e052f, 0x3234e970, 0x5e66a97b) = (0x2f20441c, 0xf66e32e9, 0x4a38d951, 0xb423bc63)"
  by (simp add: md5_step_def md5_K_def md5_S_def rotl32_def)

lemma md5_block2_example:
  "md5_block (0x8f3da25e, 0x30741eb8, 0x52a5b7b1, 0x355c7c86)
     [0x00000000, 0x00000000, 0x00000000, 0x00000000, 0x00000000, 0x00000000, 0x00000000, 0x00000000, 0x00000000, 0x00000000, 0x00000000, 0x00000000, 0x00000000, 0x00000000, 0x000001e8, 0x00000000] = (0xbe5de67a, 0x26e251a1, 0x9cde9102, 0xe98038e9)"
  unfolding md5_block_def upt64_chunks fold_append comp_apply md5_block2_rounds0 md5_block2_rounds1 md5_block2_rounds2 md5_block2_rounds3
  by simp

lemma md5_example:
  "md5_hexdigest ''17000000000000123456789abcdef0123456789abcdefK7VKiPiVeXdeK7VK'' = ''7ae65dbea151e2260291de9ce93880e9''"
  unfolding md5_hexdigest_def md5_words_example
  apply (subst md5_blocks.simps)
  apply (simp add: md5_block1_example)
  apply (subst md5_blocks.simps)
  apply (simp add: md5_block2_example)
  apply (subst md5_blocks.simps)
  apply (simp add: hex_le_def hex_byte_def drop_bit_eq_div unat_div)
  done

lemma b64_example:
  "b64encode ''1700000000000,0123456789abcdef0123456789abcdef,7ae65dbea151e2260291de9ce93880e9,V1'' =
     ''MTcwMDAwMDAwMDAwMCwwMTIzNDU2Nzg5YWJjZGVmMDEyMzQ1Njc4OWFiY2RlZiw3YWU2NWRiZWExNTFlMjI2MDI5MWRlOWNlOTM4ODBlOSxWMQ==''"
  by (simp add: b64encode_def b64_alphabet_def)

lemma golden_vector:
  "computeSignature_spec 1700000000000 ''0123456789abcdef0123456789abcdef'' ''K7VKiPiVeXdeK7VK'' ''V1'' =
     ''MTcwMDAwMDAwMDAwMCwwMTIzNDU2Nzg5YWJjZGVmMDEyMzQ1Njc4OWFiY2RlZiw3YWU2NWRiZWExNTFlMjI2MDI5MWRlOWNlOTM4ODBlOSxWMQ==''"
  by (simp add: computeSignature_spec_def str_int_example md5_example b64_example)

theorem pa_matches_spec_witness:
  "fst (pa (example_env rp_ok sp_fail2) example_client) =
     Inr ''MTcwMDAwMDAwMDAwMCwwMTIzNDU2Nzg5YWJjZGVmMDEyMzQ1Njc4OWFiY2RlZiw3YWU2NWRiZWExNTFlMjI2MDI5MWRlOWNlOTM4ODBlOSxWMQ==''"
proof -
  have c: "fst (config (example_env rp_ok sp_fail2) example_client) = Inr example_config"
    by (simp add: config_def example_env_def example_client_def)
  have p: "map_of example_config ''paInfo'' =
             Some (JObj [(''PostKey'', JStr ''K7VKiPiVeXdeK7VK''), (''PostKeyVersion'', JStr ''V1'')])"
    by (simp add: example_config_def)
  from pa_matches_spec [OF c p, of "''K7VKiPiVeXdeK7VK''" "''V1''"]
  show ?thesis by (simp add: example_env_def example_client_def golden_vector)
qed

end
